theory Spec2Isabelle
  imports Complex_Main "HOL-Library.Log_Nat" "HOL-Library.Char_ord" "HOL-Library.List_Lexorder"
begin

section \<open>Python values\<close>

text \<open>
  The reader service (\<^verbatim>\<open>reader-service-py/main.py\<close>) is dynamically typed: request
  parameters come from \<^verbatim>\<open>json.loads\<close> and row values from the store client, and every
  conversion (\<^verbatim>\<open>int()\<close>, \<^verbatim>\<open>float()\<close>, \<^verbatim>\<open>/\<close>, \<^verbatim>\<open>round\<close>) can raise. The values are
  therefore a datatype and each raising operation returns a sum, \<open>Inl\<close> the exception.

  A Python \<^verbatim>\<open>float\<close> is an IEEE binary64 number. A finite one is kept as the rational it
  denotes exactly (\<open>Fin r\<close>, with \<open>Fin 0\<close> for \<^verbatim>\<open>0.0\<close>); \<^verbatim>\<open>-0.0\<close>, the infinities and NaN
  are constructors of their own. Arithmetic rounds the exact rational result to the
  nearest binary64 value, ties to even, as the hardware does.

  A Python \<^verbatim>\<open>str\<close> is a \<open>string\<close>; the model reads its characters as ASCII.
  A \<^verbatim>\<open>dict\<close> with string keys is an association list in insertion order.
\<close>

datatype pyfloat = Fin rat | NegZero | PosInf | NegInf | NaN

datatype pyval =
    PNone
  | PBool bool
  | PInt int
  | PFloat pyfloat
  | PStr string
  | PList "pyval list"
  | PDict "(string \<times> pyval) list"

text \<open>
  Exceptions carry what raised them, not CPython's message text (which depends on the
  interpreter version). \<open>External\<close> is an exception raised inside a collaborator
  (\<^verbatim>\<open>json\<close>, the store client, pandas). All of them are subclasses of \<^verbatim>\<open>Exception\<close>.
\<close>

datatype pyexn =
    AttributeError pyval string
  | KeyError string
  | TypeError string "pyval list"
  | ValueError string pyval
  | OverflowError string
  | ZeroDivisionError
  | External string

type_synonym 'a result = "pyexn + 'a"

fun and_then :: "'a result \<Rightarrow> ('a \<Rightarrow> 'b result) \<Rightarrow> 'b result" where
  "and_then (Inl e) f = Inl e"
| "and_then (Inr x) f = f x"

subsection \<open>Binary64 rounding\<close>

definition pow2 :: "int \<Rightarrow> rat" where
  "pow2 k = (if 0 \<le> k then 2 ^ nat k else 1 / 2 ^ nat (- k))"

definition floor_log2 :: "rat \<Rightarrow> int" where
  \<comment> \<open>for \<open>x > 0\<close>: the \<open>k\<close> with \<open>2^k \<le> x < 2^(k+1)\<close>\<close>
  "floor_log2 x = (if 1 \<le> x then bitlen \<lfloor>x\<rfloor> - 1 else - bitlen (\<lceil>1 / x\<rceil> - 1))"

definition round_half_even :: "rat \<Rightarrow> int" where
  "round_half_even x =
     (let f = \<lfloor>x\<rfloor>; r = x - of_int f
      in if r < 1 / 2 then f else if 1 / 2 < r then f + 1
         else if even f then f else f + 1)"

definition to_double :: "bool \<Rightarrow> rat \<Rightarrow> pyfloat" where
  \<comment> \<open>the binary64 value nearest to \<open>x\<close>, ties to even: 53 significant bits, no bit below
      \<open>2^-1074\<close>, infinite from \<open>2^1024\<close> on; \<open>neg\<close> is the sign given to an exact zero\<close>
  "to_double neg x =
     (if x = 0 then (if neg then NegZero else Fin 0)
      else
        let k = max (floor_log2 \<bar>x\<bar> - 52) (- 1074);
            m = round_half_even (x / pow2 k)
        in if m = 0 then (if x < 0 then NegZero else Fin 0)
           else if 1024 < bitlen \<bar>m\<bar> + k then (if x < 0 then NegInf else PosInf)
           else Fin (of_int m * pow2 k))"

fun fl_negative :: "pyfloat \<Rightarrow> bool" where
  "fl_negative (Fin r) = (r < 0)"
| "fl_negative NegZero = True"
| "fl_negative PosInf = False"
| "fl_negative NegInf = True"
| "fl_negative NaN = False"

fun fl_value :: "pyfloat \<Rightarrow> rat" where
  "fl_value (Fin r) = r"
| "fl_value f = 0"

fun fl_infinite :: "pyfloat \<Rightarrow> bool" where
  "fl_infinite PosInf = True"
| "fl_infinite NegInf = True"
| "fl_infinite f = False"

fun fl_zero :: "pyfloat \<Rightarrow> bool" where
  "fl_zero (Fin r) = (r = 0)"
| "fl_zero NegZero = True"
| "fl_zero f = False"

definition fl_div :: "pyfloat \<Rightarrow> pyfloat \<Rightarrow> pyfloat" where
  \<comment> \<open>IEEE division by a divisor that is not zero\<close>
  "fl_div a b =
     (if a = NaN \<or> b = NaN then NaN
      else if fl_infinite a then
        (if fl_infinite b then NaN
         else if fl_negative a \<noteq> fl_negative b then NegInf else PosInf)
      else if fl_infinite b then
        (if fl_negative a \<noteq> fl_negative b then NegZero else Fin 0)
      else to_double (fl_negative a \<noteq> fl_negative b) (fl_value a / fl_value b))"

fun fl_ge :: "pyfloat \<Rightarrow> pyfloat \<Rightarrow> bool" where
  "fl_ge NaN b = False"
| "fl_ge a NaN = False"
| "fl_ge PosInf b = True"
| "fl_ge a NegInf = True"
| "fl_ge NegInf b = False"
| "fl_ge a PosInf = False"
| "fl_ge a b = (fl_value b \<le> fl_value a)"

fun fl_gt :: "pyfloat \<Rightarrow> pyfloat \<Rightarrow> bool" where
  "fl_gt NaN b = False"
| "fl_gt a NaN = False"
| "fl_gt NegInf b = False"
| "fl_gt a PosInf = False"
| "fl_gt PosInf b = True"
| "fl_gt a NegInf = True"
| "fl_gt a b = (fl_value b < fl_value a)"

definition fl_round2 :: "pyfloat \<Rightarrow> pyfloat" where
  \<comment> \<open>\<^verbatim>\<open>round(x, 2)\<close> on a float: the decimal with two places nearest to the exact value,
      ties to even, read back as a float; NaN and the infinities round to themselves\<close>
  "fl_round2 x =
     (case x of
        Fin r \<Rightarrow> to_double (r < 0) (of_int (round_half_even (r * 100)) / 100)
      | _ \<Rightarrow> x)"

subsection \<open>Numbers: \<^verbatim>\<open>isinstance\<close>, comparison, division, rounding\<close>

fun number :: "pyval \<Rightarrow> pyfloat option" where
  \<comment> \<open>the exact value of an \<^verbatim>\<open>int\<close>, \<^verbatim>\<open>bool\<close> or \<^verbatim>\<open>float\<close>: \<^verbatim>\<open>isinstance(v, (int, float))\<close>
      holds where this is not \<open>None\<close> (\<^verbatim>\<open>bool\<close> is a subclass of \<^verbatim>\<open>int\<close>); Python compares
      an \<^verbatim>\<open>int\<close> with a \<^verbatim>\<open>float\<close> exactly, so the integer is not rounded here\<close>
  "number (PInt i) = Some (Fin (of_int i))"
| "number (PBool b) = Some (Fin (if b then 1 else 0))"
| "number (PFloat f) = Some f"
| "number v = None"

fun integer :: "pyval \<Rightarrow> int option" where
  "integer (PInt i) = Some i"
| "integer (PBool b) = Some (if b then 1 else 0)"
| "integer v = None"

definition int_to_double :: "int \<Rightarrow> pyfloat result" where
  "int_to_double i =
     (case to_double False (of_int i) of
        PosInf \<Rightarrow> Inl (OverflowError ''int too large to convert to float'')
      | NegInf \<Rightarrow> Inl (OverflowError ''int too large to convert to float'')
      | f \<Rightarrow> Inr f)"

fun operand :: "pyval \<Rightarrow> pyfloat result option" where
  \<comment> \<open>an operand of float arithmetic: an \<^verbatim>\<open>int\<close> is converted first\<close>
  "operand (PFloat f) = Some (Inr f)"
| "operand (PInt i) = Some (int_to_double i)"
| "operand (PBool b) = Some (Inr (Fin (if b then 1 else 0)))"
| "operand v = None"

definition int_truediv :: "int \<Rightarrow> int \<Rightarrow> pyval result" where
  "int_truediv i j =
     (if j = 0 then Inl ZeroDivisionError
      else case to_double ((i < 0) \<noteq> (j < 0)) (of_int i / of_int j) of
             PosInf \<Rightarrow> Inl (OverflowError ''integer division result too large for a float'')
           | NegInf \<Rightarrow> Inl (OverflowError ''integer division result too large for a float'')
           | f \<Rightarrow> Inr (PFloat f))"

definition py_truediv :: "pyval \<Rightarrow> pyval \<Rightarrow> pyval result" where
  \<comment> \<open>\<^verbatim>\<open>a / b\<close>\<close>
  "py_truediv a b =
     (case (integer a, integer b) of
        (Some i, Some j) \<Rightarrow> int_truediv i j
      | _ \<Rightarrow>
        (case (operand a, operand b) of
           (Some x, Some y) \<Rightarrow>
             and_then x (\<lambda>x'. and_then y (\<lambda>y'.
               if fl_zero y' then Inl ZeroDivisionError else Inr (PFloat (fl_div x' y'))))
         | _ \<Rightarrow> Inl (TypeError ''/'' [a, b])))"

fun eq_int :: "pyval \<Rightarrow> int \<Rightarrow> bool" where
  \<comment> \<open>\<^verbatim>\<open>v == k\<close> for an integer literal \<open>k\<close>\<close>
  "eq_int (PInt i) k = (i = k)"
| "eq_int (PBool b) k = ((if b then 1 else 0) = k)"
| "eq_int (PFloat f) k = (case f of Fin r \<Rightarrow> r = of_int k | NegZero \<Rightarrow> k = 0 | _ \<Rightarrow> False)"
| "eq_int v k = False"

definition ge_float :: "pyval \<Rightarrow> pyfloat \<Rightarrow> bool result" where
  \<comment> \<open>\<^verbatim>\<open>v >= t\<close> for a float \<open>t\<close>\<close>
  "ge_float v t =
     (case number v of
        Some x \<Rightarrow> Inr (fl_ge x t)
      | None \<Rightarrow> Inl (TypeError ''>='' [v, PFloat t]))"

fun py_round2 :: "pyval \<Rightarrow> pyval result" where
  \<comment> \<open>\<^verbatim>\<open>round(v, 2)\<close>: an \<^verbatim>\<open>int\<close> is returned as it is\<close>
  "py_round2 (PFloat f) = Inr (PFloat (fl_round2 f))"
| "py_round2 (PInt i) = Inr (PInt i)"
| "py_round2 (PBool b) = Inr (PInt (if b then 1 else 0))"
| "py_round2 v = Inl (TypeError ''round'' [v])"

fun truthy :: "pyval \<Rightarrow> bool" where
  \<comment> \<open>\<^verbatim>\<open>bool(v)\<close>, so \<^verbatim>\<open>not v\<close> is its negation\<close>
  "truthy PNone = False"
| "truthy (PBool b) = b"
| "truthy (PInt i) = (i \<noteq> 0)"
| "truthy (PFloat f) = (\<not> fl_zero f)"
| "truthy (PStr s) = (s \<noteq> [])"
| "truthy (PList xs) = (xs \<noteq> [])"
| "truthy (PDict kvs) = (kvs \<noteq> [])"

subsection \<open>\<^verbatim>\<open>int()\<close> and \<^verbatim>\<open>float()\<close>\<close>

definition is_space :: "char \<Rightarrow> bool" where
  "is_space c = (c \<in> set [CHR 0x09, CHR 0x0A, CHR 0x0B, CHR 0x0C, CHR 0x0D, CHR '' ''])"

definition strip :: "string \<Rightarrow> string" where
  "strip s = rev (dropWhile is_space (rev (dropWhile is_space s)))"

definition is_digit :: "char \<Rightarrow> bool" where
  "is_digit c = (48 \<le> (of_char c :: nat) \<and> (of_char c :: nat) \<le> 57)"

definition digit_value :: "char \<Rightarrow> nat" where
  "digit_value c = of_char c - 48"

fun digitpart :: "string \<Rightarrow> nat list option" where
  \<comment> \<open>digits, with single underscores allowed between two digits\<close>
  "digitpart [] = None"
| "digitpart [c] = (if is_digit c then Some [digit_value c] else None)"
| "digitpart (c # d # cs) =
     (if is_digit c
      then map_option (Cons (digit_value c)) (digitpart (if d = CHR ''_'' then cs else d # cs))
      else None)"

definition decimal :: "nat list \<Rightarrow> nat" where
  "decimal ds = foldl (\<lambda>a d. 10 * a + d) 0 ds"

definition unsign :: "string \<Rightarrow> bool \<times> string" where
  \<comment> \<open>an optional sign, and the rest\<close>
  "unsign s =
     (case s of
        c # cs \<Rightarrow> if c = CHR ''-'' then (True, cs) else if c = CHR ''+'' then (False, cs) else (False, s)
      | [] \<Rightarrow> (False, s))"

definition parse_int :: "string \<Rightarrow> int option" where
  "parse_int s =
     (let (neg, body) = unsign (strip s)
      in map_option (\<lambda>ds. if neg then - int (decimal ds) else int (decimal ds)) (digitpart body))"

fun py_int :: "pyval \<Rightarrow> int result" where
  \<comment> \<open>\<^verbatim>\<open>int(v)\<close>\<close>
  "py_int (PInt i) = Inr i"
| "py_int (PBool b) = Inr (if b then 1 else 0)"
| "py_int (PFloat f) =
     (case f of
        Fin r \<Rightarrow> Inr (if r < 0 then - \<lfloor>- r\<rfloor> else \<lfloor>r\<rfloor>)
      | NegZero \<Rightarrow> Inr 0
      | NaN \<Rightarrow> Inl (ValueError ''int'' (PFloat f))
      | _ \<Rightarrow> Inl (OverflowError ''cannot convert float infinity to integer''))"
| "py_int (PStr s) =
     (case parse_int s of None \<Rightarrow> Inl (ValueError ''int'' (PStr s)) | Some i \<Rightarrow> Inr i)"
| "py_int v = Inl (TypeError ''int'' [v])"

definition lower :: "char \<Rightarrow> char" where
  "lower c = (let n = of_char c :: nat in if 65 \<le> n \<and> n \<le> 90 then char_of (n + 32) else c)"

definition optional_digits :: "string \<Rightarrow> nat list option" where
  "optional_digits s = (if s = [] then Some [] else digitpart s)"

definition parse_exponent :: "string \<Rightarrow> int option" where
  \<comment> \<open>nothing, or \<^verbatim>\<open>e\<close> with an optional sign and digits\<close>
  "parse_exponent s =
     (case s of
        [] \<Rightarrow> Some 0
      | _ # t \<Rightarrow>
          (let (neg, body) = unsign t
           in map_option (\<lambda>ds. if neg then - int (decimal ds) else int (decimal ds))
                (digitpart body)))"

definition pow10 :: "int \<Rightarrow> rat" where
  "pow10 k = (if 0 \<le> k then 10 ^ nat k else 1 / 10 ^ nat (- k))"

definition parse_float :: "string \<Rightarrow> pyfloat option" where
  "parse_float s =
     (let (neg, body) = unsign (strip s); name = map lower body
      in if name = ''inf'' \<or> name = ''infinity'' then Some (if neg then NegInf else PosInf)
         else if name = ''nan'' then Some NaN
         else
           let is_e = (\<lambda>c. c = CHR ''e'' \<or> c = CHR ''E'');
               mantissa = takeWhile (\<lambda>c. \<not> is_e c) body;
               ipart = takeWhile (\<lambda>c. c \<noteq> CHR ''.'') mantissa;
               rest = dropWhile (\<lambda>c. c \<noteq> CHR ''.'') mantissa
           in case (if rest = [] then digitpart ipart else optional_digits ipart,
                    optional_digits (drop 1 rest),
                    parse_exponent (dropWhile (\<lambda>c. \<not> is_e c) body)) of
                (Some ds, Some fs, Some e) \<Rightarrow>
                  if ds = [] \<and> fs = [] then None
                  else
                    let x = of_nat (decimal (ds @ fs)) * pow10 (e - int (length fs))
                    in Some (to_double neg (if neg then - x else x))
              | _ \<Rightarrow> None)"

fun py_float :: "pyval \<Rightarrow> pyfloat result" where
  \<comment> \<open>\<^verbatim>\<open>float(v)\<close>\<close>
  "py_float (PFloat f) = Inr f"
| "py_float (PInt i) = int_to_double i"
| "py_float (PBool b) = Inr (Fin (if b then 1 else 0))"
| "py_float (PStr s) =
     (case parse_float s of None \<Rightarrow> Inl (ValueError ''float'' (PStr s)) | Some f \<Rightarrow> Inr f)"
| "py_float v = Inl (TypeError ''float'' [v])"

section \<open>Collaborators\<close>

text \<open>
  The store client returns tables of records. A record has its time stamp (the column
  \<^verbatim>\<open>_time\<close>, a \<^verbatim>\<open>datetime\<close> shown here by its \<^verbatim>\<open>isoformat()\<close> text) and its other columns
  by name: \<^verbatim>\<open>record[k]\<close> is a dictionary lookup that raises \<^verbatim>\<open>KeyError\<close>, and
  \<^verbatim>\<open>get_field()\<close>, \<^verbatim>\<open>get_value()\<close>, \<^verbatim>\<open>get_time()\<close> are \<^verbatim>\<open>record["_field"]\<close>,
  \<^verbatim>\<open>record["_value"]\<close>, \<^verbatim>\<open>record["_time"]\<close>. Columns other than \<^verbatim>\<open>_time\<close> hold field and
  tag values of the store: strings, numbers, booleans or null.
\<close>

datatype time_column = No_time_column | Null_time | Time_at string

record flux_record =
  rec_time :: time_column
  rec_values :: "(string \<times> pyval) list"

type_synonym flux_table = "flux_record list"

text \<open>
  Each handler formats one Flux query text from a fixed template (bucket and measurement
  are configuration constants) and the values it interpolates. A query is kept as the
  template's name with those values.
\<close>

datatype flux_query =
    Events_query int int
  | Device_last_query pyval
  | Temperature_query pyval int

text \<open>
  What the handlers call and this repository does not define: \<^verbatim>\<open>json.loads\<close> on the decoded
  message body and \<^verbatim>\<open>json.dumps\<close> with \<^verbatim>\<open>encode\<close>, \<^verbatim>\<open>query_api.query\<close>, \<^verbatim>\<open>str(e)\<close> on an
  exception, the text an f-string gives a float or a container, and pandas' grouping of
  keys that are not all strings.
\<close>

record env =
  json_loads :: "string \<Rightarrow> pyval result"
  json_dumps :: "pyval \<Rightarrow> string"
  query :: "flux_query \<Rightarrow> flux_table list result"
  str_exn :: "pyexn \<Rightarrow> string"
  repr_other :: "pyval \<Rightarrow> string"
  groupby_other :: "pyval list \<Rightarrow> pyval list result"

definition get_item :: "flux_record \<Rightarrow> string \<Rightarrow> pyval result" where
  \<comment> \<open>\<^verbatim>\<open>record[k]\<close>\<close>
  "get_item r k = (case map_of (rec_values r) k of None \<Rightarrow> Inl (KeyError k) | Some v \<Rightarrow> Inr v)"

definition get_time_isoformat :: "flux_record \<Rightarrow> string result" where
  \<comment> \<open>\<^verbatim>\<open>record.get_time().isoformat()\<close>\<close>
  "get_time_isoformat r =
     (case rec_time r of
        No_time_column \<Rightarrow> Inl (KeyError ''_time'')
      | Null_time \<Rightarrow> Inl (AttributeError PNone ''isoformat'')
      | Time_at t \<Rightarrow> Inr t)"

fun dict_get :: "pyval \<Rightarrow> string \<Rightarrow> pyval \<Rightarrow> pyval result" where
  \<comment> \<open>\<^verbatim>\<open>d.get(k, default)\<close>: only a \<^verbatim>\<open>dict\<close> has the method\<close>
  "dict_get (PDict kvs) k d = Inr (case map_of kvs k of None \<Rightarrow> d | Some v \<Rightarrow> v)"
| "dict_get v k d = Inl (AttributeError v ''get'')"

subsection \<open>Text\<close>

function digits_of :: "nat \<Rightarrow> string" where
  "digits_of n =
     (if n < 10 then [char_of (48 + n)] else digits_of (n div 10) @ [char_of (48 + n mod 10)])"
  by pat_completeness auto
termination
  by (relation "measure id") auto

definition py_str :: "env \<Rightarrow> pyval \<Rightarrow> string" where
  \<comment> \<open>what an f-string puts for \<^verbatim>\<open>{v}\<close>\<close>
  "py_str env v =
     (case v of
        PStr s \<Rightarrow> s
      | PNone \<Rightarrow> ''None''
      | PBool b \<Rightarrow> (if b then ''True'' else ''False'')
      | PInt i \<Rightarrow> (if i < 0 then CHR ''-'' # digits_of (nat (- i)) else digits_of (nat i))
      | _ \<Rightarrow> repr_other env v)"

definition error_response :: "string \<Rightarrow> pyval" where
  "error_response message = PDict [(''status'', PStr ''error''), (''message'', PStr message)]"

definition success :: "pyval \<Rightarrow> pyval" where
  "success d = PDict [(''status'', PStr ''success''), (''data'', d)]"

section \<open>The critical-alerts pipeline\<close>

definition event_of_record :: "flux_record \<Rightarrow> pyval result" where
  \<comment> \<open>the dictionary appended for one record; its entries are evaluated in this order\<close>
  "event_of_record r =
     and_then (get_time_isoformat r) (\<lambda>time.
     and_then (get_item r ''event_id'') (\<lambda>event_id.
     and_then (get_item r ''source_device'') (\<lambda>source_device.
     and_then (get_item r ''event_type'') (\<lambda>event_type.
     and_then (and_then (get_item r ''criticality_level'') py_int) (\<lambda>criticality.
       Inr (PDict [(''time'', PStr time), (''event_id'', event_id),
                   (''source_device'', source_device), (''event_type'', event_type),
                   (''criticality'', PInt criticality)]))))))"

fun events_of_records :: "flux_record list \<Rightarrow> pyval list \<Rightarrow> pyval list result" where
  "events_of_records [] result = Inr result"
| "events_of_records (r # rs) result =
     and_then (event_of_record r) (\<lambda>ev. events_of_records rs (result @ [ev]))"

fun events_of_tables :: "flux_table list \<Rightarrow> pyval list \<Rightarrow> pyval list result" where
  "events_of_tables [] result = Inr result"
| "events_of_tables (t # ts) result =
     and_then (events_of_records t result) (\<lambda>result'. events_of_tables ts result')"

fun source_devices :: "pyval list \<Rightarrow> string list option" where
  \<comment> \<open>the \<^verbatim>\<open>source_device\<close> column of the data frame, when every key is a string\<close>
  "source_devices [] = Some []"
| "source_devices (ev # evs) =
     (case dict_get ev ''source_device'' PNone of
        Inr (PStr d) \<Rightarrow> map_option (Cons d) (source_devices evs)
      | _ \<Rightarrow> None)"

definition group_sizes :: "string list \<Rightarrow> (string \<times> nat) list" where
  \<comment> \<open>\<^verbatim>\<open>groupby(...).size()\<close>: one row per distinct key, keys in sorted order\<close>
  "group_sizes keys = map (\<lambda>k. (k, count_list keys k)) (sort (remdups keys))"

definition summary_entry :: "string \<times> nat \<Rightarrow> pyval" where
  "summary_entry kn =
     PDict [(''source_device'', PStr (fst kn)), (''critical_event_count'', PInt (int (snd kn)))]"

definition summarize :: "env \<Rightarrow> pyval list \<Rightarrow> pyval list result" where
  \<comment> \<open>\<^verbatim>\<open>DataFrame(result).groupby("source_device").size()
        .reset_index(name="critical_event_count").to_dict(orient="records")\<close>\<close>
  "summarize env result =
     (case source_devices result of
        Some keys \<Rightarrow> Inr (map summary_entry (group_sizes keys))
      | None \<Rightarrow> groupby_other env result)"

definition handle_alerts_critical :: "env \<Rightarrow> pyval \<Rightarrow> flux_query list \<times> pyval result" where
  "handle_alerts_critical env params =
     (case and_then (dict_get params ''since_minutes'' (PInt 15)) py_int of
        Inl e \<Rightarrow> ([], Inl e)
      | Inr since_minutes \<Rightarrow>
     (case and_then (dict_get params ''min_criticality'' (PInt 8)) py_int of
        Inl e \<Rightarrow> ([], Inl e)
      | Inr min_crit \<Rightarrow>
          let flux = Events_query since_minutes min_crit
          in ([flux],
              and_then (query env flux) (\<lambda>tables.
              and_then (events_of_tables tables []) (\<lambda>result.
              and_then (if result \<noteq> [] then summarize env result else Inr []) (\<lambda>summary_data.
                Inr (PDict [(''status'', PStr ''success''), (''data'', PList result),
                            (''summary'', PList summary_data)])))))))"

section \<open>The device-health pipeline\<close>

definition classify :: "pyfloat \<Rightarrow> string" where
  "classify v =
     (if fl_gt v (Fin 90) then ''critical''
      else if fl_gt v (Fin 70) then ''warning''
      else ''ok'')"

definition health_of_record :: "flux_record \<Rightarrow> string \<Rightarrow> string result" where
  \<comment> \<open>the loop body: \<^verbatim>\<open>and\<close> reads the value only when the field is \<^verbatim>\<open>"value"\<close>\<close>
  "health_of_record r health_status =
     and_then (get_item r ''_field'') (\<lambda>field.
       if field = PStr ''value''
       then and_then (get_item r ''_value'') (\<lambda>v.
              case number v of
                Some x \<Rightarrow> Inr (classify x)
              | None \<Rightarrow> Inr health_status)
       else Inr health_status)"

fun health_of_records :: "flux_record list \<Rightarrow> string \<Rightarrow> string result" where
  "health_of_records [] health_status = Inr health_status"
| "health_of_records (r # rs) health_status =
     and_then (health_of_record r health_status) (health_of_records rs)"

fun health_of_tables :: "flux_table list \<Rightarrow> string \<Rightarrow> string result" where
  "health_of_tables [] health_status = Inr health_status"
| "health_of_tables (t # ts) health_status =
     and_then (health_of_records t health_status) (health_of_tables ts)"

definition handle_device_health :: "env \<Rightarrow> pyval \<Rightarrow> flux_query list \<times> pyval result" where
  "handle_device_health env params =
     (case dict_get params ''source_device'' PNone of
        Inl e \<Rightarrow> ([], Inl e)
      | Inr device \<Rightarrow>
          if \<not> truthy device then ([], Inr (error_response ''source_device is required''))
          else
            let flux = Device_last_query device
            in ([flux],
                and_then (query env flux) (\<lambda>tables.
                and_then (health_of_tables tables ''unknown'') (\<lambda>health_status.
                  Inr (success (PDict [(''device'', device),
                                       (''health'', PStr health_status)]))))))"

section \<open>The temperature-anomaly pipeline\<close>

fun values_of_records :: "flux_record list \<Rightarrow> pyval list result" where
  "values_of_records [] = Inr []"
| "values_of_records (r # rs) =
     and_then (get_item r ''_field'') (\<lambda>field.
       if field = PStr ''value''
       then and_then (get_item r ''_value'') (\<lambda>v.
              and_then (values_of_records rs) (\<lambda>vs. Inr (v # vs)))
       else values_of_records rs)"

fun values_of_tables :: "flux_table list \<Rightarrow> pyval list result" where
  "values_of_tables [] = Inr []"
| "values_of_tables (t # ts) =
     and_then (values_of_records t) (\<lambda>vs.
     and_then (values_of_tables ts) (\<lambda>ws. Inr (vs @ ws)))"

definition derive_anomaly :: "pyval \<Rightarrow> pyfloat \<Rightarrow> pyval list \<Rightarrow> pyval result" where
  \<comment> \<open>the handler from \<^verbatim>\<open>if len(values) < 2\<close> on\<close>
  "derive_anomaly device threshold values =
     (if length values < 2 then Inr (success (PStr ''not enough data''))
      else
        let initial = values ! 0; latest = last values
        in and_then (if \<not> eq_int initial 0 then py_truediv latest initial else Inr (PInt 0))
             (\<lambda>ratio.
           and_then (ge_float ratio threshold) (\<lambda>anomaly.
           and_then (py_round2 ratio) (\<lambda>rounded.
             Inr (success (PDict [(''device'', device), (''initial_temp'', initial),
                                  (''latest_temp'', latest), (''ratio'', rounded),
                                  (''anomaly'', PBool anomaly)]))))))"

definition handle_anomaly_temperature :: "env \<Rightarrow> pyval \<Rightarrow> flux_query list \<times> pyval result" where
  "handle_anomaly_temperature env params =
     (case dict_get params ''source_device'' PNone of
        Inl e \<Rightarrow> ([], Inl e)
      | Inr device \<Rightarrow>
     (case and_then (dict_get params ''threshold'' (PFloat (to_double False (13 / 10)))) py_float of
        Inl e \<Rightarrow> ([], Inl e)
      | Inr threshold \<Rightarrow>
     (case and_then (dict_get params ''window_minutes'' (PInt 20)) py_int of
        Inl e \<Rightarrow> ([], Inl e)
      | Inr window \<Rightarrow>
          let flux = Temperature_query device window
          in ([flux],
              and_then (query env flux) (\<lambda>tables.
              and_then (values_of_tables tables) (derive_anomaly device threshold))))))"

section \<open>The dispatcher\<close>

text \<open>
  \<^verbatim>\<open>request_handler\<close> is a \<^verbatim>\<open>try\<close> block, an \<^verbatim>\<open>except Exception\<close> clause and, after
  them, one \<^verbatim>\<open>msg.respond(json.dumps(response).encode())\<close>. The three pipelines are
  coroutines without a suspension point of their own, so each runs to its end when
  awaited. The model returns what the handler does to its collaborators: the queries it
  sends to the store and the replies it sends on the message. Logging is left out.
\<close>

definition dispatch :: "env \<Rightarrow> string \<Rightarrow> flux_query list \<times> pyval result" where
  \<comment> \<open>the body of the \<^verbatim>\<open>try\<close> block: the queries sent to the store, and the response or
      the exception raised\<close>
  "dispatch env data =
     (case json_loads env data of
        Inl e \<Rightarrow> ([], Inl e)
      | Inr request \<Rightarrow>
     (case dict_get request ''query_type'' PNone of
        Inl e \<Rightarrow> ([], Inl e)
      | Inr query_type \<Rightarrow>
     (case dict_get request ''params'' (PDict []) of
        Inl e \<Rightarrow> ([], Inl e)
      | Inr params \<Rightarrow>
          if query_type = PStr ''alerts_critical'' then handle_alerts_critical env params
          else if query_type = PStr ''device_health'' then handle_device_health env params
          else if query_type = PStr ''anomaly_temperature''
          then handle_anomaly_temperature env params
          else ([], Inr (error_response (''Unknown query_type: '' @ py_str env query_type))))))"

definition response_of :: "env \<Rightarrow> pyval result \<Rightarrow> pyval" where
  \<comment> \<open>\<^verbatim>\<open>except Exception as e\<close>\<close>
  "response_of env outcome =
     (case outcome of Inl e \<Rightarrow> error_response (str_exn env e) | Inr response \<Rightarrow> response)"

definition request_handler :: "env \<Rightarrow> string \<Rightarrow> flux_query list \<times> string list" where
  \<comment> \<open>the queries sent to the store and the replies sent with \<^verbatim>\<open>msg.respond\<close>\<close>
  "request_handler env data =
     (let (queries, outcome) = dispatch env data
      in (queries, [json_dumps env (response_of env outcome)]))"

section \<open>Notions the statements use\<close>

definition sample_of :: "flux_record \<Rightarrow> pyfloat option" where
  \<comment> \<open>the numeric sample of a record, if it qualifies: its field is \<^verbatim>\<open>"value"\<close> and its
      value is an \<^verbatim>\<open>int\<close> or a \<^verbatim>\<open>float\<close>\<close>
  "sample_of r =
     (if get_item r ''_field'' = Inr (PStr ''value'')
      then (case get_item r ''_value'' of Inr v \<Rightarrow> number v | Inl e \<Rightarrow> None)
      else None)"

definition samples :: "flux_record list \<Rightarrow> pyfloat list" where
  "samples rs = List.map_filter sample_of rs"

definition well_formed :: "flux_record \<Rightarrow> bool" where
  \<comment> \<open>the record has the columns the health and temperature loops read: \<^verbatim>\<open>_field\<close>, and
      \<^verbatim>\<open>_value\<close> when the field is \<^verbatim>\<open>"value"\<close>\<close>
  "well_formed r =
     (case get_item r ''_field'' of
        Inl e \<Rightarrow> False
      | Inr field \<Rightarrow>
          if field = PStr ''value''
          then (case get_item r ''_value'' of Inl e \<Rightarrow> False | Inr v \<Rightarrow> True)
          else True)"

definition value_column :: "flux_record list \<Rightarrow> pyval list" where
  \<comment> \<open>the projected value sequence: the values of the records whose field is
      \<^verbatim>\<open>"value"\<close>, in row order\<close>
  "value_column rs =
     List.map_filter
       (\<lambda>r. if get_item r ''_field'' = Inr (PStr ''value'')
            then (case get_item r ''_value'' of Inr v \<Rightarrow> Some v | Inl e \<Rightarrow> None)
            else None) rs"

definition latest_health :: "flux_record list \<Rightarrow> string" where
  \<comment> \<open>the class of the last qualifying sample, \<^verbatim>\<open>"unknown"\<close> when there is none\<close>
  "latest_health rs = (case samples rs of [] \<Rightarrow> ''unknown'' | xs \<Rightarrow> classify (last xs))"

section \<open>Example collaborators\<close>

definition exn_class :: "pyexn \<Rightarrow> string" where
  "exn_class e =
     (case e of
        AttributeError v a \<Rightarrow> ''AttributeError'' | KeyError k \<Rightarrow> ''KeyError''
      | TypeError f vs \<Rightarrow> ''TypeError'' | ValueError f v \<Rightarrow> ''ValueError''
      | OverflowError m \<Rightarrow> ''OverflowError'' | ZeroDivisionError \<Rightarrow> ''ZeroDivisionError''
      | External m \<Rightarrow> m)"

definition example_env ::
  "(string \<times> pyval) list \<Rightarrow> (flux_query \<Rightarrow> flux_table list result) \<Rightarrow> (pyval \<Rightarrow> string) \<Rightarrow> env"
where
  \<comment> \<open>the message bodies that parse, with their values; the store; the serialiser\<close>
  "example_env bodies store dumps =
     \<lparr>json_loads = (\<lambda>data. case map_of bodies data of
                               Some v \<Rightarrow> Inr v
                             | None \<Rightarrow> Inl (External ''JSONDecodeError'')),
      json_dumps = dumps,
      query = store,
      str_exn = exn_class,
      repr_other = (\<lambda>v. ''...''),
      groupby_other = (\<lambda>result. Inl (External ''pandas''))\<rparr>"

definition reading :: "string \<Rightarrow> pyval \<Rightarrow> flux_record" where
  "reading t v =
     \<lparr>rec_time = Time_at t, rec_values = [(''_field'', PStr ''value''), (''_value'', v)]\<rparr>"

definition event :: "string \<Rightarrow> string \<Rightarrow> string \<Rightarrow> pyval \<Rightarrow> flux_record" where
  "event t event_id device criticality_level =
     \<lparr>rec_time = Time_at t,
      rec_values = [(''event_id'', PStr event_id), (''event_type'', PStr ''alarm''),
                    (''source_device'', PStr device),
                    (''criticality_level'', criticality_level)]\<rparr>"

definition pump :: pyval where
  "pump = PDict [(''source_device'', PStr ''pump-1'')]"

section \<open>Critical alerts: data and summary\<close>

lemma events_of_records_project:
  "map event_of_record rs = map Inr evs \<Longrightarrow> events_of_records rs acc = Inr (acc @ evs)"
proof (induction rs arbitrary: acc evs)
  case Nil
  then show ?case by simp
next
  case (Cons r rs)
  then obtain ev evs' where evs: "evs = ev # evs'"
    and ev: "event_of_record r = Inr ev"
    and rest: "map event_of_record rs = map Inr evs'"
    by (cases evs) auto
  from Cons.IH [OF rest, of "acc @ [ev]"] ev evs show ?case
    by simp
qed

lemma events_of_tables_project:
  "map event_of_record (concat ts) = map Inr evs \<Longrightarrow> events_of_tables ts acc = Inr (acc @ evs)"
proof (induction ts arbitrary: acc evs)
  case Nil
  then show ?case by simp
next
  case (Cons t ts)
  then have "map event_of_record t @ map event_of_record (concat ts) = map Inr evs"
    by simp
  then obtain evs1 evs2 where evs: "evs = evs1 @ evs2"
    and first: "map event_of_record t = map Inr evs1"
    and rest: "map event_of_record (concat ts) = map Inr evs2"
    by (auto simp: append_eq_map_conv)
  from events_of_records_project [OF first, of acc] Cons.IH [OF rest, of "acc @ evs1"] evs
  show ?case
    by simp
qed

lemma source_devices_Some:
  "source_devices evs = Some ds \<Longrightarrow>
     map (\<lambda>ev. dict_get ev ''source_device'' PNone) evs = map (\<lambda>d. Inr (PStr d)) ds"
  by (induction evs arbitrary: ds) (auto split: sum.splits pyval.splits)

lemma group_sizes_keys: "map fst (group_sizes keys) = sort (remdups keys)"
  by (simp add: group_sizes_def comp_def)

lemma group_sizes_count:
  "(k, n) \<in> set (group_sizes keys) \<longleftrightarrow> k \<in> set keys \<and> n = count_list keys k"
  by (auto simp: group_sizes_def)

text \<open>
  Claim C6. Take a critical-alerts request whose parameters convert and whose query the
  store answers, and let \<open>data\<close> be the projections of the rows, one per row, in the
  order the store returned them (tables in order, records in order within a table). The
  response is a success envelope that carries both \<open>data\<close> and \<open>summary\<close>. With devices
  that are strings, \<open>summary\<close> has one entry per distinct device of \<open>data\<close>, no device
  twice, each with the number of events of that device. With no rows, \<open>data\<close> and
  \<open>summary\<close> are both the empty list.
\<close>

theorem alerts_critical_data_and_summary:
  assumes since: "and_then (dict_get params ''since_minutes'' (PInt 15)) py_int = Inr since_minutes"
    and crit: "and_then (dict_get params ''min_criticality'' (PInt 8)) py_int = Inr min_crit"
    and store: "query env (Events_query since_minutes min_crit) = Inr tables"
    and rows: "map event_of_record (concat tables) = map Inr data"
    and keys: "source_devices data = Some devices"
  shows "handle_alerts_critical env params =
           ([Events_query since_minutes min_crit],
            Inr (PDict [(''status'', PStr ''success''), (''data'', PList data),
                        (''summary'', PList (map summary_entry (group_sizes devices)))]))
         \<and> map (\<lambda>ev. dict_get ev ''source_device'' PNone) data = map (\<lambda>d. Inr (PStr d)) devices
         \<and> distinct (map fst (group_sizes devices))
         \<and> set (map fst (group_sizes devices)) = set devices
         \<and> (\<forall>k n. (k, n) \<in> set (group_sizes devices) \<longrightarrow> n = count_list devices k)
         \<and> (concat tables = [] \<longrightarrow> data = [] \<and> group_sizes devices = [])"
proof -
  have projected: "events_of_tables tables [] = Inr data"
    using events_of_tables_project [OF rows, of "[]"] by simp
  have names: "map (\<lambda>ev. dict_get ev ''source_device'' PNone) data = map (\<lambda>d. Inr (PStr d)) devices"
    by (rule source_devices_Some [OF keys])
  have empty: "devices = []" if "data = []"
    using keys that by simp
  have summary: "(if data \<noteq> [] then summarize env data else Inr [])
      = Inr (map summary_entry (group_sizes devices))"
    using keys empty by (simp add: summarize_def group_sizes_def)
  have response: "handle_alerts_critical env params =
      ([Events_query since_minutes min_crit],
       Inr (PDict [(''status'', PStr ''success''), (''data'', PList data),
                   (''summary'', PList (map summary_entry (group_sizes devices)))]))"
    unfolding handle_alerts_critical_def
    using since crit store projected summary by (simp add: Let_def)
  have none: "data = [] \<and> group_sizes devices = []" if "concat tables = []"
    using rows that empty by (simp add: group_sizes_def)
  show ?thesis
    using response names none
    by (simp add: group_sizes_keys group_sizes_count)
qed

lemma group_sizes_example: "group_sizes [''A'', ''A'', ''B''] = [(''A'', 2), (''B'', 1)]"
  by code_simp

theorem alerts_critical_data_and_summary_witness:
  "handle_alerts_critical
     (example_env []
        (\<lambda>q. Inr [[event ''t3'' ''e3'' ''A'' (PInt 9), event ''t2'' ''e2'' ''A'' (PInt 10)],
                  [event ''t1'' ''e1'' ''B'' (PInt 8)]])
        (\<lambda>v. []))
     (PDict [(''min_criticality'', PInt 8)])
   = ([Events_query 15 8],
      Inr (PDict [(''status'', PStr ''success''),
        (''data'', PList (map (\<lambda>(t, e, d, c).
            PDict [(''time'', PStr t), (''event_id'', PStr e), (''source_device'', PStr d),
                   (''event_type'', PStr ''alarm''), (''criticality'', PInt c)])
          [(''t3'', ''e3'', ''A'', 9), (''t2'', ''e2'', ''A'', 10), (''t1'', ''e1'', ''B'', 8)])),
        (''summary'', PList
           [PDict [(''source_device'', PStr ''A''), (''critical_event_count'', PInt 2)],
            PDict [(''source_device'', PStr ''B''), (''critical_event_count'', PInt 1)]])]))
   \<and> handle_alerts_critical (example_env [] (\<lambda>q. Inr []) (\<lambda>v. [])) (PDict [])
   = ([Events_query 15 8],
      Inr (PDict [(''status'', PStr ''success''), (''data'', PList []), (''summary'', PList [])]))"
proof -
  let ?tables = "[[event ''t3'' ''e3'' ''A'' (PInt 9), event ''t2'' ''e2'' ''A'' (PInt 10)],
                  [event ''t1'' ''e1'' ''B'' (PInt 8)]]"
  let ?env = "example_env [] (\<lambda>q. Inr ?tables) (\<lambda>v. [])"
  let ?data = "map (\<lambda>(t, e, d, c).
            PDict [(''time'', PStr t), (''event_id'', PStr e), (''source_device'', PStr d),
                   (''event_type'', PStr ''alarm''), (''criticality'', PInt c)])
          [(''t3'', ''e3'', ''A'', 9), (''t2'', ''e2'', ''A'', 10), (''t1'', ''e1'', ''B'', 8)]"
  have 1: "and_then (dict_get (PDict [(''min_criticality'', PInt 8)]) ''since_minutes'' (PInt 15)) py_int = Inr 15"
    by simp
  have 2: "and_then (dict_get (PDict [(''min_criticality'', PInt 8)]) ''min_criticality'' (PInt 8)) py_int = Inr 8"
    by simp
  have 3: "query ?env (Events_query 15 8) = Inr ?tables"
    by (simp add: example_env_def)
  have 4: "map event_of_record (concat ?tables) = map Inr ?data"
    by (simp add: event_of_record_def event_def get_item_def get_time_isoformat_def)
  have 5: "source_devices ?data = Some [''A'', ''A'', ''B'']"
    by simp
  have 6: "and_then (dict_get (PDict []) ''since_minutes'' (PInt 15)) py_int = Inr 15"
    and 7: "and_then (dict_get (PDict []) ''min_criticality'' (PInt 8)) py_int = Inr 8"
    by simp_all
  have 8: "query (example_env [] (\<lambda>q. Inr []) (\<lambda>v. [])) (Events_query 15 8) = Inr []"
    by (simp add: example_env_def)
  have 9: "map event_of_record (concat []) = map Inr []" and 10: "source_devices [] = Some []"
    by simp_all
  show ?thesis
    using alerts_critical_data_and_summary [OF 1 2 3 4 5]
      alerts_critical_data_and_summary [OF 6 7 8 9 10]
    by (simp add: group_sizes_example summary_entry_def group_sizes_def)
qed

section \<open>Device health: classification and the required device\<close>

lemma health_of_record_well_formed:
  "well_formed r \<Longrightarrow>
     health_of_record r h = Inr (case sample_of r of None \<Rightarrow> h | Some x \<Rightarrow> classify x)"
  by (auto simp: well_formed_def health_of_record_def sample_of_def
           split: sum.splits option.splits if_splits)

lemma samples_Cons:
  "samples (r # rs) = (case sample_of r of None \<Rightarrow> samples rs | Some x \<Rightarrow> x # samples rs)"
  by (simp add: samples_def split: option.splits)

lemma samples_append: "samples (rs @ rs') = samples rs @ samples rs'"
  by (simp add: samples_def List.map_filter_def)

lemma health_of_records_well_formed:
  "list_all well_formed rs \<Longrightarrow>
     health_of_records rs h = Inr (case samples rs of [] \<Rightarrow> h | xs \<Rightarrow> classify (last xs))"
proof (induction rs arbitrary: h)
  case Nil
  show ?case by (simp add: samples_def)
next
  case (Cons r rs)
  then have r: "well_formed r" and rs: "list_all well_formed rs"
    by simp_all
  show ?case
  proof (cases "sample_of r")
    case None
    then show ?thesis
      using health_of_record_well_formed [OF r, of h] Cons.IH [OF rs, of h]
      by (simp add: samples_Cons)
  next
    case (Some x)
    then show ?thesis
      using health_of_record_well_formed [OF r, of h] Cons.IH [OF rs, of "classify x"]
      by (simp add: samples_Cons split: list.splits)
  qed
qed

lemma health_of_tables_well_formed:
  "list_all well_formed (concat ts) \<Longrightarrow>
     health_of_tables ts h =
       Inr (case samples (concat ts) of [] \<Rightarrow> h | xs \<Rightarrow> classify (last xs))"
proof (induction ts arbitrary: h)
  case Nil
  show ?case by (simp add: samples_def)
next
  case (Cons t ts)
  then have t: "list_all well_formed t" and ts: "list_all well_formed (concat ts)"
    by simp_all
  show ?case
    using health_of_records_well_formed [OF t, of h] Cons.IH [OF ts]
    by (simp add: samples_append split: list.splits)
qed

lemma classify_finite:
  "classify (Fin v) = (if 90 < v then ''critical'' else if 70 < v then ''warning'' else ''ok'')"
  by (simp add: classify_def)

text \<open>
  Claim C5. A device-health request that names a device, whose query the store answers
  with rows that have the columns the loop reads, gets a success envelope with
  \<open>{device, health}\<close>. The health is the class of the last qualifying sample in row order
  (field \<^verbatim>\<open>"value"\<close>, value an \<^verbatim>\<open>int\<close> or a \<^verbatim>\<open>float\<close>), and \<^verbatim>\<open>"unknown"\<close> when no row
  qualifies. A value above 90 is \<^verbatim>\<open>"critical"\<close>, a value above 70 and at most 90 is
  \<^verbatim>\<open>"warning"\<close>, a value of at most 70 is \<^verbatim>\<open>"ok"\<close>.
\<close>

theorem device_health_classification:
  assumes device: "dict_get params ''source_device'' PNone = Inr device"
    and given: "truthy device"
    and store: "query env (Device_last_query device) = Inr tables"
    and rows: "list_all well_formed (concat tables)"
  shows "handle_device_health env params =
           ([Device_last_query device],
            Inr (PDict [(''status'', PStr ''success''),
                        (''data'', PDict [(''device'', device),
                                          (''health'', PStr (latest_health (concat tables)))])]))
         \<and> latest_health (concat tables) =
             (case samples (concat tables) of
                [] \<Rightarrow> ''unknown''
              | xs \<Rightarrow> classify (last xs))
         \<and> (\<forall>v. classify (Fin v) =
               (if 90 < v then ''critical'' else if 70 < v then ''warning'' else ''ok''))"
proof -
  have "health_of_tables tables ''unknown'' = Inr (latest_health (concat tables))"
    using health_of_tables_well_formed [OF rows] by (simp add: latest_health_def)
  then have "handle_device_health env params =
           ([Device_last_query device],
            Inr (PDict [(''status'', PStr ''success''),
                        (''data'', PDict [(''device'', device),
                                          (''health'', PStr (latest_health (concat tables)))])]))"
    using device given store by (simp add: handle_device_health_def success_def)
  then show ?thesis
    by (simp add: latest_health_def classify_finite)
qed

theorem device_health_classification_witness:
  "snd (handle_device_health
     (example_env [] (\<lambda>q. Inr [[reading ''t1'' (PInt 50), reading ''t2'' (PFloat (Fin 95)),
                                reading ''t3'' (PStr ''n/a'')]]) (\<lambda>v. []))
     pump)
   = Inr (PDict [(''status'', PStr ''success''),
                 (''data'', PDict [(''device'', PStr ''pump-1''), (''health'', PStr ''critical'')])])
   \<and> snd (handle_device_health (example_env [] (\<lambda>q. Inr [[reading ''t1'' (PInt 75)]]) (\<lambda>v. [])) pump)
   = Inr (PDict [(''status'', PStr ''success''),
                 (''data'', PDict [(''device'', PStr ''pump-1''), (''health'', PStr ''warning'')])])
   \<and> snd (handle_device_health (example_env [] (\<lambda>q. Inr [[reading ''t1'' (PInt 50)]]) (\<lambda>v. [])) pump)
   = Inr (PDict [(''status'', PStr ''success''),
                 (''data'', PDict [(''device'', PStr ''pump-1''), (''health'', PStr ''ok'')])])
   \<and> snd (handle_device_health (example_env [] (\<lambda>q. Inr []) (\<lambda>v. [])) pump)
   = Inr (PDict [(''status'', PStr ''success''),
                 (''data'', PDict [(''device'', PStr ''pump-1''), (''health'', PStr ''unknown'')])])"
proof -
  have device: "dict_get pump ''source_device'' PNone = Inr (PStr ''pump-1'')"
    and given: "truthy (PStr ''pump-1'')"
    by (simp_all add: pump_def)
  have store: "query (example_env [] (\<lambda>q. Inr ts) (\<lambda>v. [])) (Device_last_query (PStr ''pump-1'')) = Inr ts"
    for ts
    by (simp add: example_env_def)
  have rows: "well_formed (reading t v)" for t v
    by (simp add: well_formed_def reading_def get_item_def)
  have sample: "sample_of (reading t v) = number v" for t v
    by (simp add: sample_of_def reading_def get_item_def)
  have health:
    "latest_health [reading ''t1'' (PInt 50), reading ''t2'' (PFloat (Fin 95)),
                    reading ''t3'' (PStr ''n/a'')] = ''critical''"
    "latest_health [reading ''t1'' (PInt 75)] = ''warning''"
    "latest_health [reading ''t1'' (PInt 50)] = ''ok''"
    "latest_health [] = ''unknown''"
    by (simp_all add: latest_health_def samples_def sample classify_def)
  show ?thesis
    using device_health_classification [OF device given store, of "[[reading ''t1'' (PInt 50), reading ''t2'' (PFloat (Fin 95)), reading ''t3'' (PStr ''n/a'')]]"]
      device_health_classification [OF device given store, of "[[reading ''t1'' (PInt 75)]]"]
      device_health_classification [OF device given store, of "[[reading ''t1'' (PInt 50)]]"]
      device_health_classification [OF device given store, of "[]"]
    by (simp add: rows health)
qed

text \<open>
  Claim C10. When the parameters of a device-health request hold \<^verbatim>\<open>source_device\<close> with a
  falsy value (the empty string, \<^verbatim>\<open>None\<close>, \<^verbatim>\<open>0\<close>, and every other value Python takes for
  false), the handler answers \<open>{status: "error", message: "source_device is required"}\<close>
  and sends no query to the store: the key being present is not enough.
\<close>

theorem device_health_rejects_falsy_device:
  assumes "map_of kvs ''source_device'' = Some device"
    and "\<not> truthy device"
  shows "handle_device_health env (PDict kvs) =
           ([], Inr (PDict [(''status'', PStr ''error''),
                            (''message'', PStr ''source_device is required'')]))"
  using assms by (simp add: handle_device_health_def error_response_def)

theorem device_health_rejects_falsy_device_witness:
  "(\<forall>env. handle_device_health env (PDict [(''source_device'', PStr '''')]) =
           ([], Inr (PDict [(''status'', PStr ''error''),
                            (''message'', PStr ''source_device is required'')])))
   \<and> (\<forall>env. handle_device_health env (PDict [(''source_device'', PNone)]) =
           ([], Inr (PDict [(''status'', PStr ''error''),
                            (''message'', PStr ''source_device is required'')])))
   \<and> (\<forall>env. handle_device_health env (PDict [(''source_device'', PInt 0)]) =
           ([], Inr (PDict [(''status'', PStr ''error''),
                            (''message'', PStr ''source_device is required'')])))"
  using device_health_rejects_falsy_device [of "[(''source_device'', PStr '''')]" "PStr ''''"]
    device_health_rejects_falsy_device [of "[(''source_device'', PNone)]" PNone]
    device_health_rejects_falsy_device [of "[(''source_device'', PInt 0)]" "PInt 0"]
  by simp

text \<open>
  The same answer, again without a query, when the key is absent: \<^verbatim>\<open>params.get\<close> then
  gives \<^verbatim>\<open>None\<close>.
\<close>

lemma device_health_requires_device:
  "map_of kvs ''source_device'' = None \<Longrightarrow>
     handle_device_health env (PDict kvs) =
       ([], Inr (PDict [(''status'', PStr ''error''),
                        (''message'', PStr ''source_device is required'')]))"
  by (simp add: handle_device_health_def error_response_def)

section \<open>Temperature anomaly\<close>

lemma value_column_Cons:
  "well_formed r \<Longrightarrow>
     value_column (r # rs) =
       (if get_item r ''_field'' = Inr (PStr ''value'')
        then projr (get_item r ''_value'') # value_column rs
        else value_column rs)"
  by (auto simp: value_column_def well_formed_def split: sum.splits)

lemma value_column_append: "value_column (rs @ rs') = value_column rs @ value_column rs'"
  by (simp add: value_column_def List.map_filter_def)

lemma values_of_records_well_formed:
  "list_all well_formed rs \<Longrightarrow> values_of_records rs = Inr (value_column rs)"
proof (induction rs)
  case Nil
  show ?case by (simp add: value_column_def)
next
  case (Cons r rs)
  then have r: "well_formed r" and IH: "values_of_records rs = Inr (value_column rs)"
    by simp_all
  from r obtain field where field: "get_item r ''_field'' = Inr field"
    by (auto simp: well_formed_def split: sum.splits)
  show ?case
  proof (cases "field = PStr ''value''")
    case True
    with r field obtain v where "get_item r ''_value'' = Inr v"
      by (auto simp: well_formed_def split: sum.splits)
    with True field IH show ?thesis
      by (simp add: value_column_Cons [OF r])
  next
    case False
    with field IH show ?thesis
      by (simp add: value_column_Cons [OF r])
  qed
qed

lemma values_of_tables_well_formed:
  "list_all well_formed (concat ts) \<Longrightarrow> values_of_tables ts = Inr (value_column (concat ts))"
proof (induction ts)
  case Nil
  show ?case by (simp add: value_column_def)
next
  case (Cons t ts)
  then show ?case
    by (simp add: values_of_records_well_formed value_column_append)
qed

lemma float_quotient_is_float:
  "and_then x (\<lambda>x'. and_then y (\<lambda>y'.
     if fl_zero y' then Inl ZeroDivisionError else Inr (PFloat (fl_div x' y')))) = Inr q
   \<Longrightarrow> \<exists>f. q = PFloat f"
  by (cases x; cases y) (auto split: if_splits)

lemma int_truediv_is_float: "int_truediv i j = Inr q \<Longrightarrow> \<exists>f. q = PFloat f"
  by (auto simp: int_truediv_def split: if_splits pyfloat.splits)

lemma py_truediv_is_float: "py_truediv a b = Inr q \<Longrightarrow> \<exists>f. q = PFloat f"
  unfolding py_truediv_def
  by (auto split: option.splits dest: float_quotient_is_float int_truediv_is_float)

lemma py_truediv_floats:
  "\<not> fl_zero b \<Longrightarrow> py_truediv (PFloat a) (PFloat b) = Inr (PFloat (fl_div a b))"
  by (simp add: py_truediv_def)

lemma zero_below_positive: "fl_gt t (Fin 0) \<Longrightarrow> \<not> fl_ge (Fin 0) t"
  by (cases t) auto

lemma value_column_readings:
  "value_column [reading t v, reading t' v'] = [v, v']"
  by (simp add: value_column_def reading_def get_item_def)

lemma well_formed_reading: "well_formed (reading t v)"
  by (simp add: well_formed_def reading_def get_item_def)

text \<open>
  Claim C7. A temperature-anomaly request whose parameters convert, whose query the store
  answers with rows that have the columns the comprehension reads, and whose projected
  value sequence has fewer than two elements gets \<open>{status: "success", data: "not enough
  data"}\<close>: the data is that string, not an object, and the envelope is not an error.
\<close>

theorem anomaly_too_few_values:
  assumes device: "dict_get params ''source_device'' PNone = Inr device"
    and threshold: "and_then (dict_get params ''threshold'' (PFloat (to_double False (13 / 10)))) py_float
                    = Inr threshold"
    and window: "and_then (dict_get params ''window_minutes'' (PInt 20)) py_int = Inr window"
    and store: "query env (Temperature_query device window) = Inr tables"
    and rows: "list_all well_formed (concat tables)"
    and few: "length (value_column (concat tables)) < 2"
  shows "handle_anomaly_temperature env params =
           ([Temperature_query device window],
            Inr (PDict [(''status'', PStr ''success''), (''data'', PStr ''not enough data'')]))"
proof -
  have "values_of_tables tables = Inr (value_column (concat tables))"
    by (rule values_of_tables_well_formed [OF rows])
  moreover have "derive_anomaly device threshold (value_column (concat tables))
      = Inr (success (PStr ''not enough data''))"
    using few by (simp add: derive_anomaly_def)
  ultimately show ?thesis
    using device threshold window store
    by (simp add: handle_anomaly_temperature_def success_def)
qed

theorem anomaly_too_few_values_witness:
  "handle_anomaly_temperature
     (example_env [] (\<lambda>q. Inr [[reading ''t1'' (PFloat (Fin 20))]]) (\<lambda>v. [])) pump
   = ([Temperature_query (PStr ''pump-1'') 20],
      Inr (PDict [(''status'', PStr ''success''), (''data'', PStr ''not enough data'')]))"
proof -
  let ?env = "example_env [] (\<lambda>q. Inr [[reading ''t1'' (PFloat (Fin 20))]]) (\<lambda>v. [])"
  have device: "dict_get pump ''source_device'' PNone = Inr (PStr ''pump-1'')"
    and threshold: "and_then (dict_get pump ''threshold'' (PFloat (to_double False (13 / 10)))) py_float
                    = Inr (to_double False (13 / 10))"
    and window: "and_then (dict_get pump ''window_minutes'' (PInt 20)) py_int = Inr 20"
    by (simp_all add: pump_def)
  have store: "query ?env (Temperature_query (PStr ''pump-1'') 20)
      = Inr [[reading ''t1'' (PFloat (Fin 20))]]"
    by (simp add: example_env_def)
  have rows: "list_all well_formed (concat [[reading ''t1'' (PFloat (Fin 20))]])"
    by (simp add: well_formed_def reading_def get_item_def)
  have few: "length (value_column (concat [[reading ''t1'' (PFloat (Fin 20))]])) < 2"
    by (simp add: value_column_def reading_def get_item_def)
  show ?thesis
    by (rule anomaly_too_few_values [OF device threshold window store rows few])
qed

subsection \<open>The floats of the examples\<close>

lemma double_13_10: "to_double False (13 / 10) = Fin (5854679515581645 / 4503599627370496)"
  by code_simp

lemma double_11_10: "to_double False (11 / 10) = Fin (2476979795053773 / 2251799813685248)"
  by code_simp

lemma quotient_30_20: "fl_div (Fin 30) (Fin 20) = Fin (3 / 2)"
  by code_simp

lemma round_3_2: "fl_round2 (Fin (3 / 2)) = Fin (3 / 2)"
  by code_simp

lemma quotient_22_20: "fl_div (Fin 22) (Fin 20) = Fin (2476979795053773 / 2251799813685248)"
  by code_simp

lemma round_11_10:
  "fl_round2 (Fin (2476979795053773 / 2251799813685248)) = Fin (2476979795053773 / 2251799813685248)"
  by code_simp

lemma quotient_1296_1000:
  "fl_div (Fin 1296) (Fin 1000) = Fin (5836665117072163 / 4503599627370496)"
  by code_simp

lemma round_1296_1000:
  "fl_round2 (Fin (5836665117072163 / 4503599627370496)) = Fin (5854679515581645 / 4503599627370496)"
  by code_simp

subsection \<open>The derivation\<close>

text \<open>
  Claim C4, as amended. With at least two projected values, and a division that raises
  nothing (the first and the last value are numbers), the handler answers with a success
  envelope \<open>{device, initial_temp, latest_temp, ratio, anomaly}\<close> where the ratio is
  \<open>latest / initial\<close> when \<open>initial != 0\<close> and the integer \<open>0\<close> otherwise, the reported
  \<open>ratio\<close> is that ratio rounded to two decimal places, and \<open>anomaly\<close> compares the ratio
  before rounding with the threshold. An initial value equal to zero gives the ratio \<open>0\<close>
  and, for every threshold above zero, no anomaly.
\<close>

theorem anomaly_derivation:
  assumes device: "dict_get params ''source_device'' PNone = Inr device"
    and threshold: "and_then (dict_get params ''threshold'' (PFloat (to_double False (13 / 10)))) py_float
                    = Inr threshold"
    and window: "and_then (dict_get params ''window_minutes'' (PInt 20)) py_int = Inr window"
    and store: "query env (Temperature_query device window) = Inr tables"
    and rows: "list_all well_formed (concat tables)"
    and "values": "values = value_column (concat tables)"
    and enough: "2 \<le> length values"
    and ratio: "(if eq_int (values ! 0) 0 then Inr (PInt 0) else py_truediv (last values) (values ! 0))
                = Inr ratio"
  shows "\<exists>x rounded.
           number ratio = Some x \<and> py_round2 ratio = Inr rounded
         \<and> handle_anomaly_temperature env params =
             ([Temperature_query device window],
              Inr (PDict [(''status'', PStr ''success''),
                     (''data'', PDict [(''device'', device), (''initial_temp'', values ! 0),
                                       (''latest_temp'', last values), (''ratio'', rounded),
                                       (''anomaly'', PBool (fl_ge x threshold))])]))
         \<and> (eq_int (values ! 0) 0 \<longrightarrow>
               rounded = PInt 0 \<and> (fl_gt threshold (Fin 0) \<longrightarrow> \<not> fl_ge x threshold))"
proof -
  have projected: "values_of_tables tables = Inr values"
    using values_of_tables_well_formed [OF rows] "values" by simp
  have kind: "ratio = PInt 0 \<or> (\<exists>f. ratio = PFloat f)"
    using ratio py_truediv_is_float by (auto split: if_splits)
  then obtain x rounded where x: "number ratio = Some x" and rounded: "py_round2 ratio = Inr rounded"
    by auto
  have derived: "derive_anomaly device threshold values =
      Inr (success (PDict [(''device'', device), (''initial_temp'', values ! 0),
                           (''latest_temp'', last values), (''ratio'', rounded),
                           (''anomaly'', PBool (fl_ge x threshold))]))"
    using enough ratio x rounded kind
    by (auto simp: derive_anomaly_def ge_float_def Let_def)
  have response: "handle_anomaly_temperature env params =
             ([Temperature_query device window],
              Inr (PDict [(''status'', PStr ''success''),
                     (''data'', PDict [(''device'', device), (''initial_temp'', values ! 0),
                                       (''latest_temp'', last values), (''ratio'', rounded),
                                       (''anomaly'', PBool (fl_ge x threshold))])]))"
    using device threshold window store projected derived
    by (simp add: handle_anomaly_temperature_def success_def)
  have zero: "rounded = PInt 0 \<and> (fl_gt threshold (Fin 0) \<longrightarrow> \<not> fl_ge x threshold)"
    if "eq_int (values ! 0) 0"
    using that ratio x rounded zero_below_positive by auto
  from x rounded response zero show ?thesis
    by blast
qed

theorem anomaly_derivation_witness:
  "snd (handle_anomaly_temperature
     (example_env []
        (\<lambda>q. Inr [[reading ''t1'' (PFloat (Fin 20)), reading ''t2'' (PFloat (Fin 30))]]) (\<lambda>v. []))
     (PDict [(''source_device'', PStr ''pump-1''), (''threshold'', PFloat (to_double False (13 / 10)))]))
   = Inr (PDict [(''status'', PStr ''success''),
        (''data'', PDict [(''device'', PStr ''pump-1''), (''initial_temp'', PFloat (Fin 20)),
                          (''latest_temp'', PFloat (Fin 30)), (''ratio'', PFloat (Fin (3 / 2))),
                          (''anomaly'', PBool True)])])
   \<and> snd (handle_anomaly_temperature
     (example_env []
        (\<lambda>q. Inr [[reading ''t1'' (PFloat (Fin 20)), reading ''t2'' (PFloat (Fin 22))]]) (\<lambda>v. []))
     (PDict [(''source_device'', PStr ''pump-1''), (''threshold'', PFloat (to_double False (13 / 10)))]))
   = Inr (PDict [(''status'', PStr ''success''),
        (''data'', PDict [(''device'', PStr ''pump-1''), (''initial_temp'', PFloat (Fin 20)),
                          (''latest_temp'', PFloat (Fin 22)),
                          (''ratio'', PFloat (to_double False (11 / 10))),
                          (''anomaly'', PBool False)])])
   \<and> snd (handle_anomaly_temperature
     (example_env []
        (\<lambda>q. Inr [[reading ''t1'' (PInt 0), reading ''t2'' (PFloat (Fin 22))]]) (\<lambda>v. []))
     (PDict [(''source_device'', PStr ''pump-1''), (''threshold'', PFloat (to_double False (13 / 10)))]))
   = Inr (PDict [(''status'', PStr ''success''),
        (''data'', PDict [(''device'', PStr ''pump-1''), (''initial_temp'', PInt 0),
                          (''latest_temp'', PFloat (Fin 22)), (''ratio'', PInt 0),
                          (''anomaly'', PBool False)])])"
proof -
  let ?params = "PDict [(''source_device'', PStr ''pump-1''),
                        (''threshold'', PFloat (to_double False (13 / 10)))]"
  have device: "dict_get ?params ''source_device'' PNone = Inr (PStr ''pump-1'')"
    and threshold: "and_then (dict_get ?params ''threshold'' (PFloat (to_double False (13 / 10)))) py_float
                    = Inr (to_double False (13 / 10))"
    and window: "and_then (dict_get ?params ''window_minutes'' (PInt 20)) py_int = Inr 20"
    by simp_all
  have store: "query (example_env [] (\<lambda>q. Inr ts) (\<lambda>v. [])) (Temperature_query (PStr ''pump-1'') 20)
      = Inr ts" for ts
    by (simp add: example_env_def)
  have rows: "list_all well_formed (concat [[reading t v, reading t' v']])" for t v t' v'
    by (simp add: well_formed_reading)
  have "values": "[v, v'] = value_column (concat [[reading t v, reading t' v']])" for t v t' v'
    by (simp add: value_column_readings)
  have enough: "2 \<le> length [v, v']" for v v' :: pyval
    by simp
  have r1: "(if eq_int ([PFloat (Fin 20), PFloat (Fin 30)] ! 0) 0 then Inr (PInt 0)
             else py_truediv (last [PFloat (Fin 20), PFloat (Fin 30)])
                    ([PFloat (Fin 20), PFloat (Fin 30)] ! 0)) = Inr (PFloat (Fin (3 / 2)))"
    by (simp add: py_truediv_floats quotient_30_20)
  have r2: "(if eq_int ([PFloat (Fin 20), PFloat (Fin 22)] ! 0) 0 then Inr (PInt 0)
             else py_truediv (last [PFloat (Fin 20), PFloat (Fin 22)])
                    ([PFloat (Fin 20), PFloat (Fin 22)] ! 0))
            = Inr (PFloat (Fin (2476979795053773 / 2251799813685248)))"
    by (simp add: py_truediv_floats quotient_22_20)
  have r3: "(if eq_int ([PInt 0, PFloat (Fin 22)] ! 0) 0 then Inr (PInt 0)
             else py_truediv (last [PInt 0, PFloat (Fin 22)]) ([PInt 0, PFloat (Fin 22)] ! 0))
            = Inr (PInt 0)"
    by simp
  show ?thesis
    using anomaly_derivation [OF device threshold window store rows "values" enough r1]
      anomaly_derivation [OF device threshold window store rows "values" enough r2]
      anomaly_derivation [OF device threshold window store rows "values" enough r3]
    by (auto simp: round_3_2 round_11_10 double_13_10 double_11_10)
qed

text \<open>
  Claim C4 as stated rounds the ratio and then sets \<open>anomaly = (ratio >= threshold)\<close>. The
  handler compares before it rounds: for the values \<open>1000.0, 1296.0\<close> and the threshold
  \<open>1.3\<close> it reports the ratio \<open>1.3\<close>, which is at least the threshold, and yet no anomaly
  (the ratio was \<open>1.296\<close> when compared). And two values are not enough for the
  derivation to happen: when they are not numbers the division raises.
\<close>

theorem anomaly_flag_ignores_reported_ratio:
  "snd (handle_anomaly_temperature
     (example_env []
        (\<lambda>q. Inr [[reading ''t1'' (PFloat (Fin 1000)), reading ''t2'' (PFloat (Fin 1296))]])
        (\<lambda>v. []))
     (PDict [(''source_device'', PStr ''pump-1''), (''threshold'', PFloat (to_double False (13 / 10)))]))
   = Inr (PDict [(''status'', PStr ''success''),
        (''data'', PDict [(''device'', PStr ''pump-1''), (''initial_temp'', PFloat (Fin 1000)),
                          (''latest_temp'', PFloat (Fin 1296)),
                          (''ratio'', PFloat (to_double False (13 / 10))),
                          (''anomaly'', PBool False)])])
   \<and> ge_float (PFloat (to_double False (13 / 10))) (to_double False (13 / 10)) = Inr True
   \<and> snd (handle_anomaly_temperature
     (example_env [] (\<lambda>q. Inr [[reading ''t1'' (PStr ''a''), reading ''t2'' (PStr ''b'')]]) (\<lambda>v. []))
     (PDict [(''source_device'', PStr ''pump-1'')]))
   = Inl (TypeError ''/'' [PStr ''b'', PStr ''a''])"
proof -
  have values_of: "values_of_tables [[reading t v, reading t' v']] = Inr [v, v']" for t v t' v'
    by (simp add: reading_def get_item_def)
  have "derive_anomaly (PStr ''pump-1'') (to_double False (13 / 10))
          [PFloat (Fin 1000), PFloat (Fin 1296)]
        = Inr (success (PDict [(''device'', PStr ''pump-1''), (''initial_temp'', PFloat (Fin 1000)),
                               (''latest_temp'', PFloat (Fin 1296)),
                               (''ratio'', PFloat (to_double False (13 / 10))),
                               (''anomaly'', PBool False)]))"
    by (simp add: derive_anomaly_def py_truediv_floats quotient_1296_1000 round_1296_1000
        ge_float_def double_13_10)
  moreover have "derive_anomaly (PStr ''pump-1'') (to_double False (13 / 10)) [PStr ''a'', PStr ''b'']
        = Inl (TypeError ''/'' [PStr ''b'', PStr ''a''])"
    by (simp add: derive_anomaly_def py_truediv_def)
  moreover have "ge_float (PFloat (to_double False (13 / 10))) (to_double False (13 / 10)) = Inr True"
    by (simp add: ge_float_def double_13_10)
  ultimately show ?thesis
    by (simp add: handle_anomaly_temperature_def example_env_def values_of success_def
        del: values_of_tables.simps)
qed

text \<open>
  Claim C3 at a temperature-anomaly request without \<^verbatim>\<open>source_device\<close>: the handler does not
  check the device. It sends the query, with \<^verbatim>\<open>None\<close> for the device, and when the store
  has no rows it answers with the success envelope of too few values.
\<close>

theorem anomaly_without_device_queries_store:
  "fst (handle_anomaly_temperature env (PDict [])) = [Temperature_query PNone 20]
   \<and> handle_anomaly_temperature (env\<lparr>query := \<lambda>q. Inr []\<rparr>) (PDict [])
     = ([Temperature_query PNone 20],
        Inr (PDict [(''status'', PStr ''success''), (''data'', PStr ''not enough data'')]))"
  by (simp add: handle_anomaly_temperature_def derive_anomaly_def success_def Let_def)

section \<open>The dispatcher's envelope\<close>

lemma alerts_store_raises:
  "q \<in> set (fst (handle_alerts_critical env params)) \<Longrightarrow> query env q = Inl e \<Longrightarrow>
     snd (handle_alerts_critical env params) = Inl e"
  by (auto simp: handle_alerts_critical_def Let_def split: sum.splits)

lemma health_store_raises:
  "q \<in> set (fst (handle_device_health env params)) \<Longrightarrow> query env q = Inl e \<Longrightarrow>
     snd (handle_device_health env params) = Inl e"
  by (auto simp: handle_device_health_def Let_def split: sum.splits if_splits)

lemma anomaly_store_raises:
  "q \<in> set (fst (handle_anomaly_temperature env params)) \<Longrightarrow> query env q = Inl e \<Longrightarrow>
     snd (handle_anomaly_temperature env params) = Inl e"
  by (auto simp: handle_anomaly_temperature_def Let_def split: sum.splits)

lemma dispatch_store_raises:
  assumes sent: "q \<in> set (fst (dispatch env data))"
    and raised: "query env q = Inl e"
  shows "snd (dispatch env data) = Inl e"
proof (cases "json_loads env data")
  case (Inl e')
  with sent show ?thesis by (simp add: dispatch_def)
next
  case (Inr request)
  show ?thesis
  proof (cases "dict_get request ''query_type'' PNone")
    case Inl
    with Inr sent show ?thesis by (simp add: dispatch_def)
  next
    case query_type: (Inr query_type)
    show ?thesis
    proof (cases "dict_get request ''params'' (PDict [])")
      case Inl
      with Inr query_type sent show ?thesis by (simp add: dispatch_def)
    next
      case params: (Inr params)
      have "dispatch env data = handle_alerts_critical env params
          \<or> dispatch env data = handle_device_health env params
          \<or> dispatch env data = handle_anomaly_temperature env params
          \<or> fst (dispatch env data) = []"
        using Inr query_type params by (simp add: dispatch_def)
      then consider (alerts) "dispatch env data = handle_alerts_critical env params"
        | (health) "dispatch env data = handle_device_health env params"
        | (anomaly) "dispatch env data = handle_anomaly_temperature env params"
        | (unknown) "fst (dispatch env data) = []"
        by blast
      then show ?thesis
      proof cases
        case alerts
        with sent raised show ?thesis by (simp add: alerts_store_raises)
      next
        case health
        with sent raised show ?thesis by (simp add: health_store_raises)
      next
        case anomaly
        with sent raised show ?thesis by (simp add: anomaly_store_raises)
      next
        case unknown
        with sent show ?thesis by simp
      qed
    qed
  qed
qed

lemma dispatch_parse_raises: "json_loads env data = Inl e \<Longrightarrow> dispatch env data = ([], Inl e)"
  by (simp add: dispatch_def)

lemma replies: "snd (request_handler env data) = [json_dumps env (response_of env (snd (dispatch env data)))]"
  by (simp add: request_handler_def split: prod.splits)

text \<open>
  Claim C1. For every message, the handler sends exactly one reply: the serialised
  response of the \<^verbatim>\<open>try\<close> block when it returns one, and the serialised
  \<open>{status: "error", message: str(e)}\<close> when it raises \<open>e\<close>. The block raises what request
  parsing raises, and what the store raises on the query the pipeline sent; every
  exception of query construction, projection and derivation reaches the same handler
  through the block's outcome. Nothing is raised past the handler (json.dumps and the
  transport's respond are collaborators that the model takes to succeed).
\<close>

theorem dispatcher_catches_and_replies_once:
  "length (snd (request_handler env data)) = 1
   \<and> snd (request_handler env data) = [json_dumps env (response_of env (snd (dispatch env data)))]
   \<and> (\<forall>e. snd (dispatch env data) = Inl e \<longrightarrow>
         snd (request_handler env data) =
           [json_dumps env (PDict [(''status'', PStr ''error''),
                                   (''message'', PStr (str_exn env e))])])
   \<and> (\<forall>response. snd (dispatch env data) = Inr response \<longrightarrow>
         snd (request_handler env data) = [json_dumps env response])
   \<and> (\<forall>e. json_loads env data = Inl e \<longrightarrow> snd (dispatch env data) = Inl e)
   \<and> (\<forall>q e. q \<in> set (fst (dispatch env data)) \<and> query env q = Inl e \<longrightarrow>
         snd (dispatch env data) = Inl e)"
proof -
  have once: "length (snd (request_handler env data)) = 1"
    by (simp add: replies)
  have caught: "snd (request_handler env data) =
      [json_dumps env (PDict [(''status'', PStr ''error''), (''message'', PStr (str_exn env e))])]"
    if "snd (dispatch env data) = Inl e" for e
    using that by (simp add: replies response_of_def error_response_def)
  have passed: "snd (request_handler env data) = [json_dumps env response]"
    if "snd (dispatch env data) = Inr response" for response
    using that by (simp add: replies response_of_def)
  have parsing: "snd (dispatch env data) = Inl e" if "json_loads env data = Inl e" for e
    using that by (simp add: dispatch_parse_raises)
  have execution: "snd (dispatch env data) = Inl e"
    if "q \<in> set (fst (dispatch env data)) \<and> query env q = Inl e" for q e
    using that dispatch_store_raises by blast
  from once replies caught passed parsing execution show ?thesis
    by blast
qed

theorem dispatcher_catches_and_replies_once_witness:
  \<open>\<forall>dumps.
     request_handler
       (example_env
          [(''{"query_type": "device_health", "params": {"source_device": "pump-1"}}'',
            PDict [(''query_type'', PStr ''device_health''), (''params'', pump)])]
          (\<lambda>q. Inl (External ''connection refused'')) dumps)
       ''{"query_type": "device_health", "params": {"source_device": "pump-1"}}''
     = ([Device_last_query (PStr ''pump-1'')],
        [dumps (PDict [(''status'', PStr ''error''), (''message'', PStr ''connection refused'')])])\<close>
proof
  fix dumps
  define body where
    \<open>body = ''{"query_type": "device_health", "params": {"source_device": "pump-1"}}''\<close>
  define env where
    "env = example_env [(body, PDict [(''query_type'', PStr ''device_health''), (''params'', pump)])]
             (\<lambda>q. Inl (External ''connection refused'')) dumps"
  have sent: "fst (dispatch env body) = [Device_last_query (PStr ''pump-1'')]"
    by (simp add: dispatch_def env_def example_env_def pump_def handle_device_health_def)
  have raised: "query env (Device_last_query (PStr ''pump-1'')) = Inl (External ''connection refused'')"
    by (simp add: env_def example_env_def)
  have wording: "str_exn env (External ''connection refused'') = ''connection refused''"
    and serialiser: "json_dumps env = dumps"
    by (simp_all add: env_def example_env_def exn_class_def)
  have queries: "fst (request_handler env body) = fst (dispatch env body)"
    by (simp add: request_handler_def split: prod.splits)
  note caught = dispatcher_catches_and_replies_once [of env body]
  from caught sent raised have "snd (dispatch env body) = Inl (External ''connection refused'')"
    by auto
  with caught have "snd (request_handler env body) =
      [json_dumps env (PDict [(''status'', PStr ''error''),
         (''message'', PStr (str_exn env (External ''connection refused'')))])]"
    by blast
  with queries sent wording serialiser have "request_handler env body
     = ([Device_last_query (PStr ''pump-1'')],
        [dumps (PDict [(''status'', PStr ''error''), (''message'', PStr ''connection refused'')])])"
    by (simp add: prod_eq_iff)
  then show \<open>request_handler
       (example_env
          [(''{"query_type": "device_health", "params": {"source_device": "pump-1"}}'',
            PDict [(''query_type'', PStr ''device_health''), (''params'', pump)])]
          (\<lambda>q. Inl (External ''connection refused'')) dumps)
       ''{"query_type": "device_health", "params": {"source_device": "pump-1"}}''
     = ([Device_last_query (PStr ''pump-1'')],
        [dumps (PDict [(''status'', PStr ''error''), (''message'', PStr ''connection refused'')])])\<close>
    by (simp only: env_def body_def)
qed

text \<open>
  Claim C2. When the message parses to an object whose \<^verbatim>\<open>query_type\<close> is absent or is not
  one of the three pipeline names, the handler sends no query and replies
  \<open>{status: "error", message: "Unknown query_type: <value>"}\<close>, where the value is the
  f-string text of the supplied \<^verbatim>\<open>query_type\<close>: the string itself, and \<^verbatim>\<open>None\<close> when the
  key is absent.
\<close>

theorem unknown_query_type:
  assumes parsed: "json_loads env data = Inr (PDict kvs)"
    and query_type: "query_type = (case map_of kvs ''query_type'' of None \<Rightarrow> PNone | Some v \<Rightarrow> v)"
    and unknown: "query_type \<notin> {PStr ''alerts_critical'', PStr ''device_health'',
                                 PStr ''anomaly_temperature''}"
  shows "request_handler env data =
           ([], [json_dumps env
                   (PDict [(''status'', PStr ''error''),
                           (''message'', PStr (''Unknown query_type: '' @ py_str env query_type))])])
         \<and> (\<forall>s. query_type = PStr s \<longrightarrow> py_str env query_type = s)
         \<and> (map_of kvs ''query_type'' = None \<longrightarrow> py_str env query_type = ''None'')"
proof -
  have "dispatch env data =
      ([], Inr (error_response (''Unknown query_type: '' @ py_str env query_type)))"
    using parsed query_type unknown by (simp add: dispatch_def)
  then have "request_handler env data =
           ([], [json_dumps env
                   (PDict [(''status'', PStr ''error''),
                           (''message'', PStr (''Unknown query_type: '' @ py_str env query_type))])])"
    by (simp add: request_handler_def response_of_def error_response_def)
  moreover have "py_str env (PStr s) = s" for s
    by (simp add: py_str_def)
  moreover have "py_str env query_type = ''None''" if "map_of kvs ''query_type'' = None"
    using that query_type by (simp add: py_str_def)
  ultimately show ?thesis
    by blast
qed

theorem unknown_query_type_witness:
  \<open>(\<forall>store dumps.
      request_handler
        (example_env
           [(''{"query_type": "reboot", "params": {}}'',
             PDict [(''query_type'', PStr ''reboot''), (''params'', PDict [])])] store dumps)
        ''{"query_type": "reboot", "params": {}}''
      = ([], [dumps (PDict [(''status'', PStr ''error''),
                            (''message'', PStr ''Unknown query_type: reboot'')])]))
   \<and> (\<forall>store dumps.
      request_handler (example_env [(''{}'', PDict [])] store dumps) ''{}''
      = ([], [dumps (PDict [(''status'', PStr ''error''),
                            (''message'', PStr ''Unknown query_type: None'')])]))\<close>
proof -
  let ?body = \<open>''{"query_type": "reboot", "params": {}}''\<close>
  let ?kvs = "[(''query_type'', PStr ''reboot''), (''params'', PDict [])]"
  have 1: "json_loads (example_env [(?body, PDict ?kvs)] store dumps) ?body = Inr (PDict ?kvs)"
    for store dumps
    by (simp add: example_env_def)
  have 2: "PStr ''reboot'' = (case map_of ?kvs ''query_type'' of None \<Rightarrow> PNone | Some v \<Rightarrow> v)"
    by simp
  have 3: "PStr ''reboot'' \<notin> {PStr ''alerts_critical'', PStr ''device_health'',
                                PStr ''anomaly_temperature''}"
    by simp
  have 4: "json_loads (example_env [(''{}'', PDict [])] store dumps) ''{}'' = Inr (PDict [])"
    for store dumps
    by (simp add: example_env_def)
  have 5: "PNone = (case map_of [] ''query_type'' of None \<Rightarrow> PNone | Some v \<Rightarrow> v)"
    by simp
  have 6: "PNone \<notin> {PStr ''alerts_critical'', PStr ''device_health'', PStr ''anomaly_temperature''}"
    by simp
  show ?thesis
    using unknown_query_type [OF 1 2 3] unknown_query_type [OF 4 5 6]
    by (simp add: example_env_def)
qed

section \<open>Determinism\<close>










section \<open>Records with a value that is not a number\<close>

lemma int_of_text: "parse_int ''high'' = None"
  by code_simp

text \<open>
  Claim C8 as stated has every pipeline skip a record whose criticality or value is not
  numeric. The critical-alerts projection converts the criticality with \<^verbatim>\<open>int()\<close>, which
  raises on \<^verbatim>\<open>"high"\<close>, and the temperature-anomaly projection keeps every value of field
  \<^verbatim>\<open>"value"\<close>, so that a first value \<^verbatim>\<open>"n/a"\<close> reaches the division: both requests are
  answered with an error envelope.
\<close>

theorem non_numeric_rows_fail_the_request:
  \<open>(\<forall>dumps.
      request_handler
        (example_env [(''{"query_type": "alerts_critical"}'',
                       PDict [(''query_type'', PStr ''alerts_critical'')])]
           (\<lambda>q. Inr [[event ''t2'' ''e2'' ''A'' (PInt 9), event ''t1'' ''e1'' ''B'' (PStr ''high'')]])
           dumps)
        ''{"query_type": "alerts_critical"}''
      = ([Events_query 15 8],
         [dumps (PDict [(''status'', PStr ''error''), (''message'', PStr ''ValueError'')])]))
   \<and> (\<forall>dumps.
      request_handler
        (example_env [(''{"query_type": "anomaly_temperature", "params": {"source_device": "pump-1"}}'',
                       PDict [(''query_type'', PStr ''anomaly_temperature''), (''params'', pump)])]
           (\<lambda>q. Inr [[reading ''t1'' (PStr ''n/a''), reading ''t2'' (PFloat (Fin 20)),
                      reading ''t3'' (PFloat (Fin 30))]])
           dumps)
        ''{"query_type": "anomaly_temperature", "params": {"source_device": "pump-1"}}''
      = ([Temperature_query (PStr ''pump-1'') 20],
         [dumps (PDict [(''status'', PStr ''error''), (''message'', PStr ''TypeError'')])]))\<close>
proof -
  have events: "events_of_tables
       [[event ''t2'' ''e2'' ''A'' (PInt 9), event ''t1'' ''e1'' ''B'' (PStr ''high'')]] []
      = Inl (ValueError ''int'' (PStr ''high''))"
    by (simp add: event_of_record_def event_def get_item_def get_time_isoformat_def int_of_text)
  have "values": "values_of_tables [[reading ''t1'' (PStr ''n/a''), reading ''t2'' (PFloat (Fin 20)),
                      reading ''t3'' (PFloat (Fin 30))]]
      = Inr [PStr ''n/a'', PFloat (Fin 20), PFloat (Fin 30)]"
    by (simp add: reading_def get_item_def)
  have derived: "derive_anomaly d t [PStr ''n/a'', PFloat (Fin 20), PFloat (Fin 30)]
      = Inl (TypeError ''/'' [PFloat (Fin 30), PStr ''n/a''])" for d t
    by (simp add: derive_anomaly_def py_truediv_def)
  show ?thesis
    by (simp add: request_handler_def dispatch_def example_env_def handle_alerts_critical_def
        handle_anomaly_temperature_def pump_def events "values" derived response_of_def
        error_response_def exn_class_def
        del: events_of_tables.simps values_of_tables.simps)
qed

text \<open>
  Claim C8, as amended. In the device-health pipeline a record of field \<^verbatim>\<open>"value"\<close> whose
  value is not an \<^verbatim>\<open>int\<close> or a \<^verbatim>\<open>float\<close> is skipped: wherever it stands among the rows,
  the response is the success envelope computed from the remaining records alone.
\<close>

theorem device_health_skips_non_numeric:
  assumes field: "get_item r ''_field'' = Inr (PStr ''value'')"
    and val: "get_item r ''_value'' = Inr v"
    and non_numeric: "number v = None"
    and device: "dict_get params ''source_device'' PNone = Inr device"
    and given: "truthy device"
    and store: "query env (Device_last_query device) = Inr (ts1 @ [xs @ r # ys] @ ts2)"
    and others: "list_all well_formed (concat ts1 @ xs @ ys @ concat ts2)"
  shows "handle_device_health env params =
           ([Device_last_query device],
            Inr (PDict [(''status'', PStr ''success''),
                        (''data'', PDict [(''device'', device),
                           (''health'', PStr (latest_health (concat ts1 @ xs @ ys @ concat ts2)))])]))"
proof -
  have skipped: "sample_of r = None"
    using field val non_numeric by (simp add: sample_of_def)
  have r: "well_formed r"
    using field val by (simp add: well_formed_def)
  have rows: "list_all well_formed (concat (ts1 @ [xs @ r # ys] @ ts2))"
    using others r by simp
  have "samples (concat (ts1 @ [xs @ r # ys] @ ts2)) = samples (concat ts1 @ xs @ ys @ concat ts2)"
    using skipped by (simp add: samples_append samples_Cons)
  then have same: "latest_health (concat (ts1 @ [xs @ r # ys] @ ts2))
      = latest_health (concat ts1 @ xs @ ys @ concat ts2)"
    by (simp add: latest_health_def)
  have "health_of_tables (ts1 @ [xs @ r # ys] @ ts2) ''unknown''
      = Inr (latest_health (concat (ts1 @ [xs @ r # ys] @ ts2)))"
    using health_of_tables_well_formed [OF rows] by (simp add: latest_health_def)
  then show ?thesis
    using device given store same by (simp add: handle_device_health_def success_def)
qed

theorem device_health_skips_non_numeric_witness:
  "snd (handle_device_health
     (example_env [] (\<lambda>q. Inr [[reading ''t1'' (PInt 75), reading ''t2'' (PStr ''n/a'')]]) (\<lambda>v. []))
     pump)
   = Inr (PDict [(''status'', PStr ''success''),
                 (''data'', PDict [(''device'', PStr ''pump-1''), (''health'', PStr ''warning'')])])"
proof -
  let ?r = "reading ''t2'' (PStr ''n/a'')"
  let ?env = "example_env [] (\<lambda>q. Inr [[reading ''t1'' (PInt 75), ?r]]) (\<lambda>v. [])"
  have field: "get_item ?r ''_field'' = Inr (PStr ''value'')"
    and val: "get_item ?r ''_value'' = Inr (PStr ''n/a'')"
    and non_numeric: "number (PStr ''n/a'') = None"
    by (simp_all add: reading_def get_item_def)
  have device: "dict_get pump ''source_device'' PNone = Inr (PStr ''pump-1'')"
    and given: "truthy (PStr ''pump-1'')"
    by (simp_all add: pump_def)
  have store: "query ?env (Device_last_query (PStr ''pump-1''))
      = Inr ([] @ [[reading ''t1'' (PInt 75)] @ ?r # []] @ [])"
    by (simp add: example_env_def)
  have others: "list_all well_formed (concat [] @ [reading ''t1'' (PInt 75)] @ [] @ concat [])"
    by (simp add: well_formed_def reading_def get_item_def)
  have health: "latest_health [reading ''t1'' (PInt 75)] = ''warning''"
    by (simp add: latest_health_def samples_def sample_of_def reading_def
        get_item_def classify_def)
  show ?thesis
    using device_health_skips_non_numeric [OF field val non_numeric device given store others]
    by (simp add: health)
qed

end
